theory Spec2Isabelle
  imports
    Complex_Main
    "HOL-Library.Sublist"
    "HOL-Library.Char_ord"
    "HOL-Library.List_Lexorder"
begin

section \<open>Expense analyzer: data model\<close>

text \<open>
  The program keeps its records in a pandas DataFrame held by an \<^verbatim>\<open>ExpenseAnalyzer\<close>
  object. The model keeps the columns the program reads or writes, one \<open>row\<close> per
  record, in file order.

  \<^item> Amounts are Python floats; the model computes with exact reals, so a sum here is
    the sum the floats approximate. The type of the amount column is a parameter
    \<open>'a\<close>, the type \<^verbatim>\<open>read_csv\<close> gave the column: \<open>real\<close> for a numeric column,
    \<open>string\<close> for a column it left as text. The loader and the categorizer never look
    at an amount; the detector, the summarizer and the query dispatcher are modelled on
    numeric columns, and the summarizer also on a text column.
  \<^item> A string is its sequence of UTF-8 bytes; on such sequences the substring test by
    bytes is the substring test by code points.
  \<^item> A description cell is a \<open>string option\<close>: \<open>None\<close> is a cell that holds no string,
    as the blank cell that \<^verbatim>\<open>read_csv\<close> reads as NaN.
  \<^item> A column that a later stage adds (\<^verbatim>\<open>day_of_week\<close>, \<^verbatim>\<open>month\<close>, \<^verbatim>\<open>anomaly\<close>) is an
    \<open>option\<close> field, \<open>None\<close> while the column does not exist.
  \<^item> \<^verbatim>\<open>self.data\<close> and \<^verbatim>\<open>self.anomalies\<close> start as Python's \<^verbatim>\<open>None\<close>: \<open>option\<close> fields.
  \<^item> The dictionaries \<^verbatim>\<open>budgets\<close> and \<^verbatim>\<open>category_keywords\<close> are association lists
    in insertion order, the order in which Python iterates over them.
  \<^item> Blank cells of the other columns are outside the model.
\<close>

record date =
  year :: nat
  month_of :: nat
  day :: nat

record 'a row =
  date_col :: date
  category :: string
  amount :: 'a
  description :: "string option"
  day_of_week :: "nat option"
  month :: "nat option"
  anomaly :: "int option"

record 'a analyzer =
  contamination :: real
  data :: "'a row list option"
  anomalies :: "'a row list option"
  budgets :: "(string \<times> real) list"
  category_keywords :: "(string \<times> string list) list"

text \<open>
  The exceptions the modelled methods raise. Python's class is \<^verbatim>\<open>ValueError\<close> for the
  first two (told apart by their messages); the others come from the libraries and
  from Python itself.
\<close>

datatype error =
    NotLoaded          \<comment> \<open>\<^verbatim>\<open>ValueError("No data loaded. Call load_data first.")\<close>\<close>
  | MissingColumns     \<comment> \<open>\<^verbatim>\<open>ValueError("CSV must contain ... columns")\<close>\<close>
  | ReadFailure        \<comment> \<open>\<^verbatim>\<open>pd.read_csv\<close> raised\<close>
  | DateParse          \<comment> \<open>\<^verbatim>\<open>pd.to_datetime\<close> raised\<close>
  | ModelFailure       \<comment> \<open>\<^verbatim>\<open>IsolationForest.fit_predict\<close> raised\<close>
  | LengthMismatch     \<comment> \<open>assigning a column of the wrong length\<close>
  | AttributeError     \<comment> \<open>\<^verbatim>\<open>description.lower()\<close> on a cell that is not a string\<close>
  | TypeError          \<comment> \<open>\<^verbatim>\<open>mean()\<close> of a column of text\<close>

text \<open>\<^verbatim>\<open>ExpenseAnalyzer.__init__\<close>: the default budgets and keyword table.\<close>

definition default_budgets :: "(string \<times> real) list" where
  "default_budgets =
     [(''Food'', 500), (''Travel'', 1000), (''Utilities'', 300), (''Entertainment'', 200)]"

definition default_category_keywords :: "(string \<times> string list) list" where
  "default_category_keywords =
     [(''Food'', [''coffee'', ''restaurant'', ''cafe'', ''lunch'', ''dinner'', ''grocery'']),
      (''Travel'', [''flight'', ''uber'', ''taxi'', ''hotel'', ''train'']),
      (''Utilities'', [''electric'', ''water'', ''internet'', ''bill'']),
      (''Entertainment'', [''movie'', ''concert'', ''game'', ''ticket''])]"

definition init :: "real \<Rightarrow> 'a analyzer" where
  "init c =
     \<lparr>contamination = c, data = None, anomalies = None,
      budgets = default_budgets, category_keywords = default_category_keywords\<rparr>"

section \<open>Strings\<close>

text \<open>
  Python's \<^verbatim>\<open>sub in s\<close> on strings is the contiguous-sublist test, \<^const>\<open>sublist\<close>
  of the library (executable by its code equations).

  \<^verbatim>\<open>str.lower\<close> follows the Unicode case tables, which are not part of the program:
  it is a parameter \<open>str_lower\<close> of every function that calls it, and the theorems hold
  for every such function. \<open>ascii_lowercase\<close> is the instance on which the model is
  run: it agrees with \<^verbatim>\<open>str.lower\<close> on ASCII text. \<^verbatim>\<open>str.capitalize\<close> is called on
  the four ASCII category names of the query dispatcher only, where it upper-cases the
  first letter and lower-cases the rest.
\<close>

definition upper_letters :: string where
  "upper_letters = ''ABCDEFGHIJKLMNOPQRSTUVWXYZ''"

definition lower_letters :: string where
  "lower_letters = ''abcdefghijklmnopqrstuvwxyz''"

definition lower_char :: "char \<Rightarrow> char" where
  "lower_char c = (case map_of (zip upper_letters lower_letters) c of None \<Rightarrow> c | Some l \<Rightarrow> l)"

definition upper_char :: "char \<Rightarrow> char" where
  "upper_char c = (case map_of (zip lower_letters upper_letters) c of None \<Rightarrow> c | Some u \<Rightarrow> u)"

definition ascii_lowercase :: "string \<Rightarrow> string" where
  "ascii_lowercase s = map lower_char s"

fun capitalize :: "string \<Rightarrow> string" where
  "capitalize [] = []"
| "capitalize (c # cs) = upper_char c # ascii_lowercase cs"

section \<open>Categorizer\<close>

text \<open>
  \<^verbatim>\<open>categorize_description\<close>, the closure inside \<^verbatim>\<open>auto_categorize\<close>: the \<^verbatim>\<open>for\<close> loop
  over \<^verbatim>\<open>self.category_keywords.items()\<close> is \<open>categorize_loop\<close>, returning at the first
  category one of whose keywords occurs in the lower-cased description. On a cell
  that is not a string, \<^verbatim>\<open>description.lower()\<close> raises \<^verbatim>\<open>AttributeError\<close>.
\<close>

fun categorize_loop :: "(string \<times> string list) list \<Rightarrow> string \<Rightarrow> string" where
  "categorize_loop [] d = ''Other''"
| "categorize_loop ((c, keywords) # rest) d =
     (if list_ex (\<lambda>keyword. sublist keyword d) keywords then c else categorize_loop rest d)"

definition categorize_description ::
  "(string \<Rightarrow> string) \<Rightarrow> (string \<times> string list) list \<Rightarrow> string option \<Rightarrow> error + string" where
  "categorize_description str_lower table cell =
     (case cell of
        None \<Rightarrow> Inl AttributeError
      | Some d \<Rightarrow> Inr (categorize_loop table (str_lower d)))"

text \<open>
  \<^verbatim>\<open>Series.apply\<close> calls the function on the cells in order and builds the new column;
  the first exception leaves it, and then nothing is built.
\<close>

fun series_apply :: "('a \<Rightarrow> error + 'b) \<Rightarrow> 'a list \<Rightarrow> error + 'b list" where
  "series_apply f [] = Inr []"
| "series_apply f (x # xs) =
     (case f x of
        Inl e \<Rightarrow> Inl e
      | Inr y \<Rightarrow> (case series_apply f xs of Inl e \<Rightarrow> Inl e | Inr ys \<Rightarrow> Inr (y # ys)))"

definition recategorize :: "'a row list \<Rightarrow> string list \<Rightarrow> 'a row list" where
  "recategorize d cs = map2 (\<lambda>r c. r\<lparr>category := c\<rparr>) d cs"

text \<open>
  \<^verbatim>\<open>auto_categorize\<close>: raises when no data is loaded; otherwise it applies the
  categorizer to the description column and assigns the result to the category
  column. When the categorizer raises, the assignment does not happen: the exception
  leaves the method with the analyzer as it was.
\<close>

definition auto_categorize :: "(string \<Rightarrow> string) \<Rightarrow> 'a analyzer \<Rightarrow> error + 'a analyzer" where
  "auto_categorize str_lower s =
     (case data s of
        None \<Rightarrow> Inl NotLoaded
      | Some d \<Rightarrow>
          (case series_apply (categorize_description str_lower (category_keywords s))
                  (map description d) of
             Inl e \<Rightarrow> Inl e
           | Inr cs \<Rightarrow> Inr (s\<lparr>data := Some (recategorize d cs)\<rparr>)))"

text \<open>
  The Categorizer as the specification words it, for the fixed table: the description
  is lower-cased, and Food, Travel, Utilities, Entertainment are tried in this order,
  each with its own keywords.
\<close>

definition mentions :: "(string \<Rightarrow> string) \<Rightarrow> string list \<Rightarrow> string \<Rightarrow> bool" where
  "mentions str_lower keywords d = list_ex (\<lambda>keyword. sublist keyword (str_lower d)) keywords"

definition spec_category :: "(string \<Rightarrow> string) \<Rightarrow> string \<Rightarrow> string" where
  "spec_category str_lower d =
     (if mentions str_lower
           [''coffee'', ''restaurant'', ''cafe'', ''lunch'', ''dinner'', ''grocery''] d
        then ''Food''
      else if mentions str_lower [''flight'', ''uber'', ''taxi'', ''hotel'', ''train''] d
        then ''Travel''
      else if mentions str_lower [''electric'', ''water'', ''internet'', ''bill''] d
        then ''Utilities''
      else if mentions str_lower [''movie'', ''concert'', ''game'', ''ticket''] d
        then ''Entertainment''
      else ''Other'')"

section \<open>Dates\<close>

text \<open>
  \<^verbatim>\<open>dt.dayofweek\<close> of pandas: Monday is 0, Sunday is 6 (Gregorian calendar, by
  Sakamoto's method). \<^verbatim>\<open>dt.month\<close> is the field \<open>month_of\<close>.
\<close>

definition month_offsets :: "nat list" where
  "month_offsets = [0, 3, 2, 5, 0, 3, 5, 1, 4, 6, 2, 4]"

definition dayofweek :: "date \<Rightarrow> nat" where
  "dayofweek d =
     (let y = (if month_of d < 3 then year d - 1 else year d);
          t = (if 1 \<le> month_of d \<and> month_of d \<le> 12 then month_offsets ! (month_of d - 1) else 0)
      in (y + y div 4 - y div 100 + y div 400 + t + day d + 6) mod 7)"

text \<open>
  Decimal rendering: \<^verbatim>\<open>str(n)\<close>, the format \<^verbatim>\<open>{n:02d}\<close>, and \<^verbatim>\<open>strftime('%Y-%m')\<close>,
  which pads the year with zeros to four digits and the month to two.
\<close>

definition digit_char :: "nat \<Rightarrow> char" where
  "digit_char n = ''0123456789'' ! (n mod 10)"

fun str_nat :: "nat \<Rightarrow> string" where
  "str_nat n = (if n < 10 then [digit_char n] else str_nat (n div 10) @ [digit_char n])"

declare str_nat.simps [simp del]

definition format_02d :: "nat \<Rightarrow> string" where
  "format_02d n = (if n < 10 then CHR ''0'' # str_nat n else str_nat n)"

definition format_04d :: "nat \<Rightarrow> string" where
  "format_04d n = replicate (4 - length (str_nat n)) CHR ''0'' @ str_nat n"

definition strftime_Ym :: "date \<Rightarrow> string" where
  "strftime_Ym d = format_04d (year d) @ ''-'' @ format_02d (month_of d)"

section \<open>Loader\<close>

text \<open>
  \<^verbatim>\<open>load_data\<close>. What \<^verbatim>\<open>pd.read_csv\<close> returns is a table with its column names and
  its rows; of a row the model keeps the four cells the program uses (a cell of a
  column the header lacks is never read). The date cell is still text; the amount
  cell has the type \<open>'a\<close> that \<^verbatim>\<open>read_csv\<close> gave the column. The file system
  (\<open>read_csv\<close>) and pandas' date parser (\<open>to_datetime\<close>, \<open>None\<close> where it raises) are
  parameters. An exception leaves \<^verbatim>\<open>load_data\<close> through its \<^verbatim>\<open>raise\<close>; the caller
  (\<^verbatim>\<open>process_csv\<close>) then drops the analyzer, so the model returns the error alone.
\<close>

record 'a csv_row =
  date_cell :: string
  category_cell :: string
  amount_cell :: 'a
  description_cell :: "string option"

record 'a csv =
  columns :: "string list"
  rows :: "'a csv_row list"

definition required_columns :: "string list" where
  "required_columns = [''date'', ''category'', ''amount'', ''description'']"

definition loaded_row :: "date \<Rightarrow> 'a csv_row \<Rightarrow> 'a row" where
  "loaded_row d r =
     \<lparr>date_col = d, category = category_cell r, amount = amount_cell r,
      description = description_cell r, day_of_week = None, month = None, anomaly = None\<rparr>"

definition load_data ::
  "(string \<Rightarrow> error + 'a csv) \<Rightarrow> (string \<Rightarrow> date option) \<Rightarrow> string \<Rightarrow> 'a analyzer
     \<Rightarrow> error + 'a analyzer" where
  "load_data read_csv to_datetime data_path s =
     (case read_csv data_path of
        Inl e \<Rightarrow> Inl e
      | Inr f \<Rightarrow>
          if \<not> list_all (\<lambda>col. col \<in> set (columns f)) required_columns then Inl MissingColumns
          else (case those (map (\<lambda>r. to_datetime (date_cell r)) (rows f)) of
                  None \<Rightarrow> Inl DateParse
                | Some ds \<Rightarrow> Inr (s\<lparr>data := Some (map2 loaded_row ds (rows f))\<rparr>)))"

section \<open>Anomaly detector\<close>

text \<open>
  \<^verbatim>\<open>preprocess_data\<close> adds the two derived columns and returns the feature matrix; it
  is called by \<^verbatim>\<open>detect_anomalies\<close> only, after the check that data is loaded.
  The isolation forest is a parameter \<open>fit_predict\<close>: it labels every feature row
  \<open>1\<close> or \<open>-1\<close>, or raises (\<open>None\<close>).
\<close>

type_synonym features = "real \<times> nat \<times> nat"

definition preprocess_data :: "real row list \<Rightarrow> real row list \<times> features list" where
  "preprocess_data d =
     (let d1 = map (\<lambda>r. r\<lparr>day_of_week := Some (dayofweek (date_col r)),
                           month := Some (month_of (date_col r))\<rparr>) d
      in (d1, map (\<lambda>r. (amount r, dayofweek (date_col r), month_of (date_col r))) d1))"

definition detect_anomalies ::
  "(features list \<Rightarrow> int list option) \<Rightarrow> real analyzer \<Rightarrow> error + real analyzer" where
  "detect_anomalies fit_predict s =
     (case data s of
        None \<Rightarrow> Inl NotLoaded
      | Some d \<Rightarrow>
          (case preprocess_data d of (d1, feats) \<Rightarrow>
             (case fit_predict feats of
                None \<Rightarrow> Inl ModelFailure
              | Some labels \<Rightarrow>
                  if length labels \<noteq> length d1 then Inl LengthMismatch
                  else (let d2 = map2 (\<lambda>r l. r\<lparr>anomaly := Some l\<rparr>) d1 labels
                        in Inr (s\<lparr>data := Some d2,
                                  anomalies := Some (filter (\<lambda>r. anomaly r = Some (- 1)) d2)\<rparr>)))))"

section \<open>Summarizer\<close>

text \<open>
  \<^verbatim>\<open>generate_summary\<close>. \<^verbatim>\<open>groupby('category')['amount'].sum()\<close> is a series indexed by
  the categories that occur, in sorted order; \<^verbatim>\<open>Series.get(key, default)\<close> looks a label
  up. The mean of no values is NaN in pandas, \<open>None\<close> here. The method assigns to no
  attribute of the analyzer: the model returns the analyzer next to the result, as it
  was passed in.
\<close>

record budget_entry =
  budget :: real
  spent :: real
  remaining :: real
  status :: string

record summary =
  total_expenses :: real
  avg_expense :: "real option"
  category_breakdown :: "(string \<times> real) list"
  anomaly_count :: nat
  budget_status :: "(string \<times> budget_entry) list"

definition groupby_sum :: "real row list \<Rightarrow> (string \<times> real) list" where
  "groupby_sum d =
     map (\<lambda>c. (c, sum_list (map amount (filter (\<lambda>r. category r = c) d))))
       (sort (remdups (map category d)))"

definition series_get :: "(string \<times> real) list \<Rightarrow> string \<Rightarrow> real \<Rightarrow> real" where
  "series_get ser k dflt = (case map_of ser k of None \<Rightarrow> dflt | Some v \<Rightarrow> v)"

definition mean :: "real list \<Rightarrow> real option" where
  "mean xs = (if xs = [] then None else Some (sum_list xs / real (length xs)))"

definition budget_line :: "(string \<times> real) list \<Rightarrow> string \<times> real \<Rightarrow> string \<times> budget_entry" where
  "budget_line breakdown cb =
     (case cb of (c, b) \<Rightarrow>
        (let sp = series_get breakdown c 0
         in (c, \<lparr>budget = b, spent = sp, remaining = b - sp,
                 status = (if sp > b then ''Over budget'' else ''Within budget'')\<rparr>)))"

definition generate_summary :: "real analyzer \<Rightarrow> (error + summary) \<times> real analyzer" where
  "generate_summary s =
     (case data s of
        None \<Rightarrow> (Inl NotLoaded, s)
      | Some d \<Rightarrow>
          (let breakdown = groupby_sum d
           in (Inr \<lparr>total_expenses = sum_list (map amount d),
                     avg_expense = mean (map amount d),
                     category_breakdown = breakdown,
                     anomaly_count = (case anomalies s of None \<Rightarrow> 0 | Some a \<Rightarrow> length a),
                     budget_status = map (budget_line breakdown) (budgets s)\<rparr>, s)))"

text \<open>
  The same method on an analyzer whose amount column \<^verbatim>\<open>read_csv\<close> left as text. With
  at least one record it does not get past its first lines: the sum of line 85
  concatenates the strings, and the mean of line 86 cannot turn that text into a
  number and raises \<^verbatim>\<open>TypeError\<close>. With no record the two lines aggregate nothing and
  the method goes on as it does on a numeric column.
\<close>

definition generate_summary_text :: "string analyzer \<Rightarrow> (error + summary) \<times> string analyzer" where
  "generate_summary_text s =
     (case data s of
        None \<Rightarrow> (Inl NotLoaded, s)
      | Some d \<Rightarrow>
          if d \<noteq> [] then (Inl TypeError, s)
          else (Inr \<lparr>total_expenses = 0,
                      avg_expense = None,
                      category_breakdown = [],
                      anomaly_count = (case anomalies s of None \<Rightarrow> 0 | Some a \<Rightarrow> length a),
                      budget_status = map (budget_line []) (budgets s)\<rparr>, s))"

section \<open>Query dispatcher\<close>

text \<open>
  \<^verbatim>\<open>handle_query\<close> of the chat front end. The session holds the analyzer or nothing;
  \<^verbatim>\<open>str.lower\<close> and the current year (\<^verbatim>\<open>pd.Timestamp.now().year\<close>) are parameters.
  A response is the message sent, with the data it is rendered from.
\<close>

datatype response =
    NoData                                           \<comment> \<open>"No data loaded. Please upload ..."\<close>
  | BudgetPrompt "(string \<times> real) list"             \<comment> \<open>"Current budgets: ..." and the update offer\<close>
  | Expenses string "(date \<times> real \<times> string option) list"
                                                     \<comment> \<open>"<category> Expenses:" and the rows\<close>
  | NoExpenses string "string option"               \<comment> \<open>"No <category> expenses found [for <filter>]"\<close>
  | UpdatePrompt                                     \<comment> \<open>\<^verbatim>\<open>prompt_budget_update\<close>\<close>
  | NotRecognized                                    \<comment> \<open>"Query not recognized. ..."\<close>

definition categories :: "string list" where
  "categories = [''food'', ''travel'', ''utilities'', ''entertainment'']"

definition months :: "string list" where
  "months = [''january'', ''february'', ''march'', ''april'', ''may'', ''june'',
             ''july'', ''august'', ''september'', ''october'', ''november'', ''december'']"

text \<open>
  The \<^verbatim>\<open>for month in months\<close> loop, stopping at the first month that occurs in the
  query; \<open>i\<close> counts the months passed, so the result is \<^verbatim>\<open>months.index(month) + 1\<close>.
\<close>

fun month_loop :: "string list \<Rightarrow> nat \<Rightarrow> string \<Rightarrow> nat option" where
  "month_loop [] i content = None"
| "month_loop (m # ms) i content =
     (if sublist m content then Some (i + 1) else month_loop ms (i + 1) content)"

definition date_filter_of :: "nat \<Rightarrow> string \<Rightarrow> string option" where
  "date_filter_of now_year content =
     (case month_loop months 0 content of
        None \<Rightarrow> None
      | Some month_num \<Rightarrow>
          Some ((if sublist ''2025'' content then ''2025'' else str_nat now_year)
                @ ''-'' @ format_02d month_num))"

definition handle_query ::
  "(string \<Rightarrow> string) \<Rightarrow> nat \<Rightarrow> real analyzer option \<Rightarrow> string \<Rightarrow> response" where
  "handle_query str_lower now_year session message =
     (case session of
        None \<Rightarrow> NoData
      | Some a \<Rightarrow>
          (case data a of
             None \<Rightarrow> NoData
           | Some d \<Rightarrow>
               (let content = str_lower message in
                if sublist ''budget'' content then BudgetPrompt (budgets a)
                else (case find (\<lambda>cat. sublist cat content) categories of
                        Some cat \<Rightarrow>
                          (let cname = capitalize cat;
                               date_filter = date_filter_of now_year content;
                               expenses = map (\<lambda>r. (date_col r, amount r, description r))
                                            (filter (\<lambda>r. category r = cname) d);
                               expenses' = (case date_filter of
                                              None \<Rightarrow> expenses
                                            | Some f \<Rightarrow>
                                                filter (\<lambda>e. strftime_Ym (fst e) = f) expenses)
                           in if expenses' \<noteq> [] then Expenses cname expenses'
                              else NoExpenses cname date_filter)
                      | None \<Rightarrow>
                          if sublist ''update_budget'' content then UpdatePrompt
                          else NotRecognized))))"


section \<open>Concrete data\<close>

text \<open>
  The records of the specification's end-to-end example, as a file and as loaded rows,
  and stand-ins for the library parameters on which the model is run: a parser for
  dates written \<^verbatim>\<open>YYYY-MM-DD\<close> (one of the formats \<^verbatim>\<open>pd.to_datetime\<close> reads) and a
  labeller that marks the amounts above a threshold. The general theorems hold for
  every parser, every labeller and every lower-casing function.
\<close>

definition digit_val :: "char \<Rightarrow> nat option" where
  "digit_val c = map_of (zip ''0123456789'' [0, 1, 2, 3, 4, 5, 6, 7, 8, 9]) c"

definition number_of :: "string \<Rightarrow> nat option" where
  "number_of cs =
     (case those (map digit_val cs) of
        None \<Rightarrow> None
      | Some ds \<Rightarrow> if ds = [] then None else Some (foldl (\<lambda>n k. 10 * n + k) 0 ds))"

definition iso_date :: "string \<Rightarrow> date option" where
  "iso_date cs =
     (if length cs = 10 \<and> cs ! 4 = CHR ''-'' \<and> cs ! 7 = CHR ''-'' then
        (case (number_of (take 4 cs), number_of (take 2 (drop 5 cs)), number_of (drop 8 cs)) of
           (Some y, Some m, Some d) \<Rightarrow>
             if 1 \<le> m \<and> m \<le> 12 \<and> 1 \<le> d \<and> d \<le> 31
             then Some \<lparr>year = y, month_of = m, day = d\<rparr> else None
         | _ \<Rightarrow> None)
      else None)"

definition threshold_labels :: "real \<Rightarrow> features list \<Rightarrow> int list option" where
  "threshold_labels limit feats = Some (map (\<lambda>f. if fst f > limit then - 1 else 1) feats)"

definition sample_csv :: "real csv" where
  "sample_csv =
     \<lparr>columns = [''date'', ''category'', ''amount'', ''description''],
      rows =
        [\<lparr>date_cell = ''2025-01-01'', category_cell = ''Uncategorized'', amount_cell = 4.5,
          description_cell = Some ''Coffee shop''\<rparr>,
         \<lparr>date_cell = ''2025-01-02'', category_cell = ''Uncategorized'', amount_cell = 320,
          description_cell = Some ''Flight ticket''\<rparr>,
         \<lparr>date_cell = ''2025-01-03'', category_cell = ''Uncategorized'', amount_cell = 75,
          description_cell = Some ''Electric bill''\<rparr>,
         \<lparr>date_cell = ''2025-01-04'', category_cell = ''Uncategorized'', amount_cell = 18,
          description_cell = Some ''Movie ticket''\<rparr>]\<rparr>"

definition sample_rows :: "real row list" where
  "sample_rows =
     [\<lparr>date_col = \<lparr>year = 2025, month_of = 1, day = 1\<rparr>, category = ''Uncategorized'',
       amount = 4.5, description = Some ''Coffee shop'',
       day_of_week = None, month = None, anomaly = None\<rparr>,
      \<lparr>date_col = \<lparr>year = 2025, month_of = 1, day = 2\<rparr>, category = ''Uncategorized'',
       amount = 320, description = Some ''Flight ticket'',
       day_of_week = None, month = None, anomaly = None\<rparr>,
      \<lparr>date_col = \<lparr>year = 2025, month_of = 1, day = 3\<rparr>, category = ''Uncategorized'',
       amount = 75, description = Some ''Electric bill'',
       day_of_week = None, month = None, anomaly = None\<rparr>,
      \<lparr>date_col = \<lparr>year = 2025, month_of = 1, day = 4\<rparr>, category = ''Uncategorized'',
       amount = 18, description = Some ''Movie ticket'',
       day_of_week = None, month = None, anomaly = None\<rparr>]"

definition sample_analyzer :: "real analyzer" where
  "sample_analyzer = (init (1 / 10))\<lparr>data := Some sample_rows\<rparr>"

definition categorized_rows :: "real row list" where
  "categorized_rows =
     recategorize sample_rows [''Food'', ''Travel'', ''Utilities'', ''Entertainment'']"

definition categorized_analyzer :: "real analyzer" where
  "categorized_analyzer = (init (1 / 10))\<lparr>data := Some categorized_rows\<rparr>"

text \<open>A file whose amount column holds text, so that \<^verbatim>\<open>read_csv\<close> leaves it as text.\<close>

definition text_amount_csv :: "string csv" where
  "text_amount_csv =
     \<lparr>columns = [''date'', ''category'', ''amount'', ''description''],
      rows =
        [\<lparr>date_cell = ''2025-01-01'', category_cell = ''Food'', amount_cell = ''abc'',
          description_cell = Some ''Coffee shop''\<rparr>]\<rparr>"

text \<open>
  A ledger that is already categorized: Food is over its budget, Travel meets its budget
  exactly, Utilities and Entertainment have no record, and one record is in a
  category without a budget. Below it, the summary the program computes for it, and
  the example records after the detector has run with the threshold labeller.
\<close>

definition entry :: "nat \<Rightarrow> string \<Rightarrow> real \<Rightarrow> string \<Rightarrow> real row" where
  "entry dd c a txt =
     \<lparr>date_col = \<lparr>year = 2025, month_of = 1, day = dd\<rparr>, category = c, amount = a,
      description = Some txt, day_of_week = None, month = None, anomaly = None\<rparr>"

definition ledger_rows :: "real row list" where
  "ledger_rows =
     [entry 5 ''Food'' 250 ''Grocery store'', entry 6 ''Travel'' 1000 ''Flight to Rome'',
      entry 7 ''Other'' 40 ''Gift'', entry 8 ''Food'' 300 ''Restaurant'']"

definition ledger_analyzer :: "real analyzer" where
  "ledger_analyzer = (init (1 / 10))\<lparr>data := Some ledger_rows\<rparr>"

definition ledger_summary :: summary where
  "ledger_summary =
     \<lparr>total_expenses = 1590, avg_expense = Some (795 / 2),
      category_breakdown = [(''Food'', 550), (''Other'', 40), (''Travel'', 1000)],
      anomaly_count = 0,
      budget_status =
        [(''Food'', \<lparr>budget = 500, spent = 550, remaining = - 50, status = ''Over budget''\<rparr>),
         (''Travel'', \<lparr>budget = 1000, spent = 1000, remaining = 0, status = ''Within budget''\<rparr>),
         (''Utilities'', \<lparr>budget = 300, spent = 0, remaining = 300, status = ''Within budget''\<rparr>),
         (''Entertainment'',
            \<lparr>budget = 200, spent = 0, remaining = 200, status = ''Within budget''\<rparr>)]\<rparr>"

definition detected_rows :: "real row list" where
  "detected_rows =
     map2 (\<lambda>r (w, l). r\<lparr>day_of_week := Some w, month := Some 1, anomaly := Some l\<rparr>)
       categorized_rows [(2, 1), (3, - 1), (4, 1), (5, 1)]"

definition detected_analyzer :: "real analyzer" where
  "detected_analyzer =
     (init (1 / 10))\<lparr>data := Some detected_rows,
                      anomalies := Some [detected_rows ! 1]\<rparr>"

text \<open>
  A file with the header and no record, the analyzer it loads into, and the summary
  computed for it; and a labeller that, like scikit-learn, refuses an empty feature
  matrix.
\<close>

definition header_only_csv :: "real csv" where
  "header_only_csv = \<lparr>columns = [''date'', ''category'', ''amount'', ''description''], rows = []\<rparr>"

definition empty_analyzer :: "real analyzer" where
  "empty_analyzer = (init (1 / 10))\<lparr>data := Some []\<rparr>"

definition empty_summary :: summary where
  "empty_summary =
     \<lparr>total_expenses = 0, avg_expense = None, category_breakdown = [], anomaly_count = 0,
      budget_status =
        [(''Food'', \<lparr>budget = 500, spent = 0, remaining = 500, status = ''Within budget''\<rparr>),
         (''Travel'', \<lparr>budget = 1000, spent = 0, remaining = 1000, status = ''Within budget''\<rparr>),
         (''Utilities'', \<lparr>budget = 300, spent = 0, remaining = 300, status = ''Within budget''\<rparr>),
         (''Entertainment'',
            \<lparr>budget = 200, spent = 0, remaining = 200, status = ''Within budget''\<rparr>)]\<rparr>"

definition strict_labels :: "real \<Rightarrow> features list \<Rightarrow> int list option" where
  "strict_labels limit feats = (if feats = [] then None else threshold_labels limit feats)"

text \<open>
  What the text-amount file loads into, and a file whose second date is not a date.
\<close>

definition text_amount_rows :: "string row list" where
  "text_amount_rows =
     [\<lparr>date_col = \<lparr>year = 2025, month_of = 1, day = 1\<rparr>, category = ''Food'',
       amount = ''abc'', description = Some ''Coffee shop'',
       day_of_week = None, month = None, anomaly = None\<rparr>]"

definition text_amount_analyzer :: "string analyzer" where
  "text_amount_analyzer = (init (1 / 10))\<lparr>data := Some text_amount_rows\<rparr>"


text \<open>
  A file whose second description cell is blank, and what it loads into.
\<close>

definition blank_csv :: "real csv" where
  "blank_csv =
     \<lparr>columns = [''date'', ''category'', ''amount'', ''description''],
      rows =
        [\<lparr>date_cell = ''2025-01-01'', category_cell = ''Uncategorized'', amount_cell = 4.5,
          description_cell = Some ''Coffee shop''\<rparr>,
         \<lparr>date_cell = ''2025-01-02'', category_cell = ''Uncategorized'', amount_cell = 12,
          description_cell = None\<rparr>]\<rparr>"

definition blank_rows :: "real row list" where
  "blank_rows =
     [\<lparr>date_col = \<lparr>year = 2025, month_of = 1, day = 1\<rparr>, category = ''Uncategorized'',
       amount = 4.5, description = Some ''Coffee shop'',
       day_of_week = None, month = None, anomaly = None\<rparr>,
      \<lparr>date_col = \<lparr>year = 2025, month_of = 1, day = 2\<rparr>, category = ''Uncategorized'',
       amount = 12, description = None,
       day_of_week = None, month = None, anomaly = None\<rparr>]"

definition blank_analyzer :: "real analyzer" where
  "blank_analyzer = (init (1 / 10))\<lparr>data := Some blank_rows\<rparr>"

text \<open>
  The analyzer on which the detector has run, after the example file has been loaded
  into it again.
\<close>

definition reloaded_analyzer :: "real analyzer" where
  "reloaded_analyzer = detected_analyzer\<lparr>data := Some sample_rows\<rparr>"

text \<open>
  Two categorized trips in January, one of 2024 and one of 2026.
\<close>

definition trips_rows :: "real row list" where
  "trips_rows =
     [\<lparr>date_col = \<lparr>year = 2024, month_of = 1, day = 15\<rparr>, category = ''Travel'',
       amount = 200, description = Some ''Flight to Oslo'',
       day_of_week = None, month = None, anomaly = None\<rparr>,
      \<lparr>date_col = \<lparr>year = 2026, month_of = 1, day = 10\<rparr>, category = ''Travel'',
       amount = 30, description = Some ''Taxi'',
       day_of_week = None, month = None, anomaly = None\<rparr>]"

definition trips_analyzer :: "real analyzer" where
  "trips_analyzer = (init (1 / 10))\<lparr>data := Some trips_rows\<rparr>"

section \<open>Auxiliary facts\<close>




lemma series_apply_length:
  "series_apply f xs = Inr ys \<Longrightarrow> length ys = length xs"
  by (induction xs arbitrary: ys) (auto split: sum.splits)

lemma series_apply_all:
  "list_all (\<lambda>x. f x = Inr (g x)) xs \<Longrightarrow> series_apply f xs = Inr (map g xs)"
  by (induction xs) simp_all

lemma series_apply_fails:
  "list_ex (\<lambda>x. f x = Inl e) xs \<Longrightarrow> list_all (\<lambda>x. f x = Inl e \<or> (\<exists>y. f x = Inr y)) xs \<Longrightarrow>
     series_apply f xs = Inl e"
  by (induction xs) (auto split: sum.splits)

lemma recategorize_map:
  "recategorize d (map h d) = map (\<lambda>r. r\<lparr>category := h r\<rparr>) d"
  unfolding recategorize_def by (induction d) simp_all

lemma recategorize_length:
  "length cs = length d \<Longrightarrow> length (recategorize d cs) = length d"
  by (simp add: recategorize_def)

lemma recategorize_flagged:
  "length cs = length d \<Longrightarrow>
     length (filter (\<lambda>r. anomaly r = Some (- 1)) (recategorize d cs)) =
     length (filter (\<lambda>r. anomaly r = Some (- 1)) d)"
proof (induction d arbitrary: cs)
  case Nil
  then show ?case by (simp add: recategorize_def)
next
  case (Cons r d)
  then obtain c cs' where cs: "cs = c # cs'" and len: "length cs' = length d"
    by (cases cs) auto
  from Cons.IH [OF len] show ?case
    by (simp add: cs recategorize_def)
qed

lemma sample_dates:
  "iso_date ''2025-01-01'' = Some \<lparr>year = 2025, month_of = 1, day = 1\<rparr>"
  "iso_date ''2025-01-02'' = Some \<lparr>year = 2025, month_of = 1, day = 2\<rparr>"
  "iso_date ''2025-01-03'' = Some \<lparr>year = 2025, month_of = 1, day = 3\<rparr>"
  "iso_date ''2025-01-04'' = Some \<lparr>year = 2025, month_of = 1, day = 4\<rparr>"
  by (simp_all add: iso_date_def number_of_def digit_val_def)

lemma load_sample:
  "load_data (\<lambda>path. Inr sample_csv) iso_date ''sample_expenses.csv'' (init (1 / 10)) =
     Inr sample_analyzer"
  by (simp add: load_data_def sample_csv_def required_columns_def sample_dates loaded_row_def
      sample_analyzer_def sample_rows_def)

lemma load_header_only:
  "load_data (\<lambda>path. Inr header_only_csv) iso_date ''empty.csv'' (init (1 / 10)) =
     Inr empty_analyzer"
  by (simp add: load_data_def header_only_csv_def required_columns_def empty_analyzer_def)

lemma load_blank:
  "load_data (\<lambda>path. Inr blank_csv) iso_date ''expenses.csv'' (init (1 / 10)) =
     Inr blank_analyzer"
  by (simp add: load_data_def blank_csv_def required_columns_def sample_dates loaded_row_def
      blank_analyzer_def blank_rows_def)

lemma load_text_amount:
  "load_data (\<lambda>path. Inr text_amount_csv) iso_date ''expenses.csv'' (init (1 / 10)) =
     Inr text_amount_analyzer"
  by (simp add: load_data_def text_amount_csv_def required_columns_def sample_dates
      loaded_row_def text_amount_analyzer_def text_amount_rows_def)

lemma reload_sample:
  "load_data (\<lambda>path. Inr sample_csv) iso_date ''sample_expenses.csv'' detected_analyzer =
     Inr reloaded_analyzer"
  by (simp add: load_data_def sample_csv_def required_columns_def sample_dates loaded_row_def
      reloaded_analyzer_def sample_rows_def)

section \<open>Properties of the categorizer\<close>

lemma categorize_loop_first:
  "(\<exists>i < length table.
       list_ex (\<lambda>k. sublist k d) (snd (table ! i)) \<and>
       (\<forall>j < i. \<not> list_ex (\<lambda>k. sublist k d) (snd (table ! j))) \<and>
       categorize_loop table d = fst (table ! i))
   \<or> ((\<forall>j < length table. \<not> list_ex (\<lambda>k. sublist k d) (snd (table ! j))) \<and>
       categorize_loop table d = ''Other'')"
proof (induction table)
  case Nil
  then show ?case by simp
next
  case (Cons p table)
  obtain c ks where p: "p = (c, ks)" by (cases p)
  show ?case
  proof (cases "list_ex (\<lambda>k. sublist k d) ks")
    case True
    then have "list_ex (\<lambda>k. sublist k d) (snd ((p # table) ! 0)) \<and>
       (\<forall>j < 0. \<not> list_ex (\<lambda>k. sublist k d) (snd ((p # table) ! j))) \<and>
       categorize_loop (p # table) d = fst ((p # table) ! 0)"
      using p by simp
    then show ?thesis by blast
  next
    case False
    from Cons.IH show ?thesis
    proof
      assume "\<exists>i < length table.
         list_ex (\<lambda>k. sublist k d) (snd (table ! i)) \<and>
         (\<forall>j < i. \<not> list_ex (\<lambda>k. sublist k d) (snd (table ! j))) \<and>
         categorize_loop table d = fst (table ! i)"
      then obtain i where i: "i < length table"
        "list_ex (\<lambda>k. sublist k d) (snd (table ! i))"
        "\<forall>j < i. \<not> list_ex (\<lambda>k. sublist k d) (snd (table ! j))"
        "categorize_loop table d = fst (table ! i)"
        by blast
      have "\<forall>j < Suc i. \<not> list_ex (\<lambda>k. sublist k d) (snd ((p # table) ! j))"
        using i(3) False p by (auto simp: less_Suc_eq_0_disj)
      then have "Suc i < length (p # table) \<and>
         list_ex (\<lambda>k. sublist k d) (snd ((p # table) ! Suc i)) \<and>
         (\<forall>j < Suc i. \<not> list_ex (\<lambda>k. sublist k d) (snd ((p # table) ! j))) \<and>
         categorize_loop (p # table) d = fst ((p # table) ! Suc i)"
        using i False p by simp
      then show ?thesis by blast
    next
      assume none: "(\<forall>j < length table. \<not> list_ex (\<lambda>k. sublist k d) (snd (table ! j))) \<and>
         categorize_loop table d = ''Other''"
      then have "\<forall>j < length (p # table). \<not> list_ex (\<lambda>k. sublist k d) (snd ((p # table) ! j))"
        using False p by (auto simp: less_Suc_eq_0_disj)
      moreover have "categorize_loop (p # table) d = ''Other''"
        using none False p by simp
      ultimately show ?thesis by blast
    qed
  qed
qed

lemma categorize_loop_range:
  "categorize_loop table d \<in> fst ` set table \<union> {''Other''}"
  by (induction table d rule: categorize_loop.induct) auto

lemma categorize_default_eq_spec:
  "categorize_loop default_category_keywords (str_lower d) = spec_category str_lower d"
  by (simp add: default_category_keywords_def spec_category_def mentions_def)

lemma sample_categories:
  "spec_category ascii_lowercase ''Coffee shop'' = ''Food''"
  "spec_category ascii_lowercase ''Flight ticket'' = ''Travel''"
  "spec_category ascii_lowercase ''Electric bill'' = ''Utilities''"
  "spec_category ascii_lowercase ''Movie ticket'' = ''Entertainment''"
  by code_simp+

lemma default_keys_or_other:
  "fst ` set default_category_keywords \<union> {''Other''} =
     set [''Food'', ''Travel'', ''Utilities'', ''Entertainment'', ''Other'']"
  unfolding default_category_keywords_def by (simp add: insert_commute)

lemma apply_categorizer_strings:
  assumes "list_all (\<lambda>r. description r \<noteq> None) d"
  shows "series_apply (categorize_description str_lower table) (map description d) =
           Inr (map (\<lambda>r. categorize_loop table (str_lower (the (description r)))) d)"
proof -
  have "list_all (\<lambda>c. categorize_description str_lower table c =
                       Inr (categorize_loop table (str_lower (the c)))) (map description d)"
    using assms by (auto simp: list_all_iff categorize_description_def)
  then have "series_apply (categorize_description str_lower table) (map description d) =
               Inr (map (\<lambda>c. categorize_loop table (str_lower (the c))) (map description d))"
    by (rule series_apply_all)
  then show ?thesis by (simp add: comp_def)
qed

lemma apply_categorizer_blank:
  assumes "list_ex (\<lambda>r. description r = None) d"
  shows "series_apply (categorize_description str_lower table) (map description d) =
           Inl AttributeError"
proof (rule series_apply_fails)
  from assms obtain r where r: "r \<in> set d" "description r = None"
    by (auto simp: list_ex_iff)
  have "description r \<in> set (map description d)"
    using r(1) by simp
  moreover have "categorize_description str_lower table (description r) = Inl AttributeError"
    using r(2) by (simp add: categorize_description_def)
  ultimately show "list_ex (\<lambda>c. categorize_description str_lower table c = Inl AttributeError)
          (map description d)"
    unfolding list_ex_iff by blast
  show "list_all (\<lambda>c. categorize_description str_lower table c = Inl AttributeError \<or>
                      (\<exists>y. categorize_description str_lower table c = Inr y))
          (map description d)"
    by (auto simp: list_all_iff categorize_description_def split: option.splits)
qed

lemma auto_categorize_strings:
  assumes "data s = Some d" and "list_all (\<lambda>r. description r \<noteq> None) d"
  shows "auto_categorize str_lower s =
           Inr (s\<lparr>data := Some (map (\<lambda>r. r\<lparr>category :=
                  categorize_loop (category_keywords s) (str_lower (the (description r)))\<rparr>) d)\<rparr>)"
  using assms(1) apply_categorizer_strings [OF assms(2)]
  by (simp add: auto_categorize_def recategorize_map)

lemma auto_categorize_blank:
  assumes "data s = Some d" and "list_ex (\<lambda>r. description r = None) d"
  shows "auto_categorize str_lower s = Inl AttributeError"
  using assms(1) apply_categorizer_blank [OF assms(2)]
  by (simp add: auto_categorize_def)

lemma auto_categorize_Inr:
  assumes "auto_categorize str_lower s = Inr s'"
  shows "\<exists>d cs. data s = Some d \<and> length cs = length d \<and>
           s' = s\<lparr>data := Some (recategorize d cs)\<rparr>"
proof -
  from assms obtain d where d: "data s = Some d"
    by (auto simp: auto_categorize_def split: option.splits)
  with assms obtain cs where
    cs: "series_apply (categorize_description str_lower (category_keywords s))
           (map description d) = Inr cs"
    and s': "s' = s\<lparr>data := Some (recategorize d cs)\<rparr>"
    by (auto simp: auto_categorize_def split: sum.splits)
  from series_apply_length [OF cs] have "length cs = length d" by simp
  with d s' show ?thesis by blast
qed

lemma blank_categorize:
  "auto_categorize ascii_lowercase blank_analyzer = Inl AttributeError"
proof -
  have "data blank_analyzer = Some blank_rows"
    by (simp add: blank_analyzer_def)
  moreover have "list_ex (\<lambda>r. description r = None) blank_rows"
    by (simp add: blank_rows_def)
  ultimately show ?thesis by (rule auto_categorize_blank)
qed

text \<open>
  C1, as the code has it. On loaded data whose description cells are all strings, with
  the table of \<^verbatim>\<open>__init__\<close>, the Categorizer gives every record the category
  \<open>spec_category\<close> of its description: the first of Food, Travel, Utilities,
  Entertainment one of whose keywords occurs in the lower-cased description, and
  \<open>Other\<close> when there is none. The old category is not read: it is overwritten. When a
  description cell holds no string (a blank cell), the Categorizer raises
  \<^verbatim>\<open>AttributeError\<close> and assigns nothing.
\<close>

theorem auto_categorize_first_match:
  assumes "data s = Some d"
    and "category_keywords s = default_category_keywords"
  shows "(list_all (\<lambda>r. description r \<noteq> None) d \<longrightarrow>
            auto_categorize str_lower s =
              Inr (s\<lparr>data := Some (map (\<lambda>r. r\<lparr>category :=
                     spec_category str_lower (the (description r))\<rparr>) d)\<rparr>)) \<and>
         (list_ex (\<lambda>r. description r = None) d \<longrightarrow>
            auto_categorize str_lower s = Inl AttributeError)"
proof (intro conjI impI)
  assume "list_all (\<lambda>r. description r \<noteq> None) d"
  from auto_categorize_strings [OF assms(1) this]
  show "auto_categorize str_lower s =
          Inr (s\<lparr>data := Some (map (\<lambda>r. r\<lparr>category :=
                 spec_category str_lower (the (description r))\<rparr>) d)\<rparr>)"
    by (simp add: assms(2) categorize_default_eq_spec)
next
  assume "list_ex (\<lambda>r. description r = None) d"
  with assms(1) show "auto_categorize str_lower s = Inl AttributeError"
    by (rule auto_categorize_blank)
qed

theorem auto_categorize_first_match_witness:
  "data sample_analyzer = Some sample_rows
   \<and> category_keywords sample_analyzer = default_category_keywords
   \<and> list_all (\<lambda>r. description r \<noteq> None) sample_rows
   \<and> auto_categorize ascii_lowercase sample_analyzer =
       Inr (sample_analyzer\<lparr>data := Some categorized_rows\<rparr>)
   \<and> data blank_analyzer = Some blank_rows
   \<and> category_keywords blank_analyzer = default_category_keywords
   \<and> list_ex (\<lambda>r. description r = None) blank_rows
   \<and> auto_categorize ascii_lowercase blank_analyzer = Inl AttributeError"
proof -
  have d: "data sample_analyzer = Some sample_rows"
    by (simp add: sample_analyzer_def)
  have k: "category_keywords sample_analyzer = default_category_keywords"
    by (simp add: sample_analyzer_def init_def)
  have a: "list_all (\<lambda>r. description r \<noteq> None) sample_rows"
    by (simp add: sample_rows_def)
  have c: "map (\<lambda>r. r\<lparr>category := spec_category ascii_lowercase (the (description r))\<rparr>)
             sample_rows = categorized_rows"
    by (simp add: sample_rows_def categorized_rows_def recategorize_def sample_categories)
  have r1: "auto_categorize ascii_lowercase sample_analyzer =
       Inr (sample_analyzer\<lparr>data := Some categorized_rows\<rparr>)"
    using auto_categorize_first_match [OF d k, of ascii_lowercase] a c by simp
  have d': "data blank_analyzer = Some blank_rows"
    by (simp add: blank_analyzer_def)
  have k': "category_keywords blank_analyzer = default_category_keywords"
    by (simp add: blank_analyzer_def init_def)
  have b: "list_ex (\<lambda>r. description r = None) blank_rows"
    by (simp add: blank_rows_def)
  have r2: "auto_categorize ascii_lowercase blank_analyzer = Inl AttributeError"
    using auto_categorize_first_match [OF d' k', of ascii_lowercase] b by simp
  from d k a r1 d' k' b r2 show ?thesis by blast
qed

text \<open>
  C1 as the specification states it fails: a file with a blank description cell loads,
  and on it the Categorizer raises instead of assigning \<open>Other\<close>.
\<close>

theorem blank_description_raises:
  "load_data (\<lambda>path. Inr blank_csv) iso_date ''expenses.csv'' (init (1 / 10)) =
     Inr blank_analyzer \<and>
   data blank_analyzer = Some blank_rows \<and>
   map description blank_rows = [Some ''Coffee shop'', None] \<and>
   auto_categorize ascii_lowercase blank_analyzer = Inl AttributeError"
  by (simp add: load_blank blank_categorize) (simp add: blank_analyzer_def blank_rows_def)

text \<open>
  C2, as the code has it. The Categorizer completes exactly on the loaded data whose
  description cells are all strings, and then the category of every record is a key of
  the keyword table or \<open>Other\<close>; with the table of \<^verbatim>\<open>__init__\<close> it is one of Food,
  Travel, Utilities, Entertainment, Other.
\<close>

theorem auto_categorize_category_range:
  assumes "data s = Some d"
  shows "(list_all (\<lambda>r. description r \<noteq> None) d \<longrightarrow>
           (\<exists>s' d'. auto_categorize str_lower s = Inr s' \<and> data s' = Some d' \<and>
              length d' = length d \<and>
              (\<forall>r \<in> set d'. category r \<in> fst ` set (category_keywords s) \<union> {''Other''}) \<and>
              (category_keywords s = default_category_keywords \<longrightarrow>
                 (\<forall>r \<in> set d'. category r \<in>
                    set [''Food'', ''Travel'', ''Utilities'', ''Entertainment'', ''Other''])))) \<and>
         (\<forall>s'. auto_categorize str_lower s = Inr s' \<longrightarrow>
            list_all (\<lambda>r. description r \<noteq> None) d)"
proof (intro conjI impI allI)
  assume strings: "list_all (\<lambda>r. description r \<noteq> None) d"
  define d' where "d' = map (\<lambda>r. r\<lparr>category :=
               categorize_loop (category_keywords s) (str_lower (the (description r)))\<rparr>) d"
  have run: "auto_categorize str_lower s = Inr (s\<lparr>data := Some d'\<rparr>)"
    using auto_categorize_strings [OF assms strings] by (simp add: d'_def)
  have len: "length d' = length d"
    by (simp add: d'_def)
  have range: "\<forall>r \<in> set d'. category r \<in> fst ` set (category_keywords s) \<union> {''Other''}"
  proof
    fix r assume "r \<in> set d'"
    then obtain r0 where "r = r0\<lparr>category :=
        categorize_loop (category_keywords s) (str_lower (the (description r0)))\<rparr>"
      unfolding d'_def by (metis (no_types, lifting) imageE list.set_map)
    then have "category r = categorize_loop (category_keywords s) (str_lower (the (description r0)))"
      by simp
    then show "category r \<in> fst ` set (category_keywords s) \<union> {''Other''}"
      using categorize_loop_range [of "category_keywords s" "str_lower (the (description r0))"]
      by simp
  qed
  have dflt: "category_keywords s = default_category_keywords \<longrightarrow>
          (\<forall>r \<in> set d'. category r \<in>
             set [''Food'', ''Travel'', ''Utilities'', ''Entertainment'', ''Other''])"
  proof
    assume k: "category_keywords s = default_category_keywords"
    show "\<forall>r \<in> set d'. category r \<in>
             set [''Food'', ''Travel'', ''Utilities'', ''Entertainment'', ''Other'']"
      using range unfolding k default_keys_or_other .
  qed
  have "data (s\<lparr>data := Some d'\<rparr>) = Some d'" by simp
  with run len range dflt
  show "\<exists>s' d'. auto_categorize str_lower s = Inr s' \<and> data s' = Some d' \<and>
              length d' = length d \<and>
              (\<forall>r \<in> set d'. category r \<in> fst ` set (category_keywords s) \<union> {''Other''}) \<and>
              (category_keywords s = default_category_keywords \<longrightarrow>
                 (\<forall>r \<in> set d'. category r \<in>
                    set [''Food'', ''Travel'', ''Utilities'', ''Entertainment'', ''Other'']))"
    by blast
next
  fix s' assume ok: "auto_categorize str_lower s = Inr s'"
  show "list_all (\<lambda>r. description r \<noteq> None) d"
  proof (rule ccontr)
    assume "\<not> list_all (\<lambda>r. description r \<noteq> None) d"
    then have "list_ex (\<lambda>r. description r = None) d"
      by (auto simp: list_all_iff list_ex_iff)
    with assms have "auto_categorize str_lower s = Inl AttributeError"
      by (rule auto_categorize_blank)
    with ok show False by simp
  qed
qed

theorem auto_categorize_category_range_witness:
  "data sample_analyzer = Some sample_rows
   \<and> list_all (\<lambda>r. description r \<noteq> None) sample_rows
   \<and> (\<exists>s' d'. auto_categorize ascii_lowercase sample_analyzer = Inr s' \<and> data s' = Some d' \<and>
         length d' = 4 \<and>
         (\<forall>r \<in> set d'. category r \<in>
            set [''Food'', ''Travel'', ''Utilities'', ''Entertainment'', ''Other'']))"
proof -
  have d: "data sample_analyzer = Some sample_rows"
    by (simp add: sample_analyzer_def)
  have k: "category_keywords sample_analyzer = default_category_keywords"
    by (simp add: sample_analyzer_def init_def)
  have a: "list_all (\<lambda>r. description r \<noteq> None) sample_rows"
    by (simp add: sample_rows_def)
  have n: "length sample_rows = 4"
    by (simp add: sample_rows_def)
  from auto_categorize_category_range [OF d, of ascii_lowercase] a obtain s' d' where
    "auto_categorize ascii_lowercase sample_analyzer = Inr s'" "data s' = Some d'"
    "length d' = length sample_rows"
    "category_keywords sample_analyzer = default_category_keywords \<longrightarrow>
       (\<forall>r \<in> set d'. category r \<in>
          set [''Food'', ''Travel'', ''Utilities'', ''Entertainment'', ''Other''])"
    by blast
  with d k n a show ?thesis by metis
qed

text \<open>
  C2 as the specification states it fails: on the loaded file with a blank description
  cell the Categorizer raises, and the records keep the category of the file, which is
  neither a key of the keyword table nor \<open>Other\<close>.
\<close>

theorem blank_description_keeps_categories:
  "data blank_analyzer = Some blank_rows \<and>
   auto_categorize ascii_lowercase blank_analyzer = Inl AttributeError \<and>
   map category blank_rows = [''Uncategorized'', ''Uncategorized''] \<and>
   ''Uncategorized'' \<notin> set [''Food'', ''Travel'', ''Utilities'', ''Entertainment'', ''Other'']"
  by (simp add: blank_categorize) (simp add: blank_analyzer_def blank_rows_def)

section \<open>Properties of the summarizer and the detector\<close>

lemma map_of_tabulate:
  "map_of (map (\<lambda>c. (c, f c)) cs) k = (if k \<in> set cs then Some (f k) else None)"
  by (induction cs) auto

lemma series_get_groupby_sum:
  "series_get (groupby_sum d) c 0 = sum_list (map amount (filter (\<lambda>r. category r = c) d))"
proof (cases "c \<in> set (map category d)")
  case True
  then show ?thesis
    by (simp add: series_get_def groupby_sum_def map_of_tabulate)
next
  case False
  then have "filter (\<lambda>r. category r = c) d = []"
    by (auto simp: filter_empty_conv)
  with False show ?thesis
    by (simp add: series_get_def groupby_sum_def map_of_tabulate)
qed




lemma groupby_ledger: "groupby_sum ledger_rows = [(''Food'', 550), (''Other'', 40), (''Travel'', 1000)]"
  by (simp add: groupby_sum_def ledger_rows_def entry_def)

lemma ledger_summary_eval: "generate_summary ledger_analyzer = (Inr ledger_summary, ledger_analyzer)"
  by (simp add: generate_summary_def ledger_analyzer_def groupby_ledger init_def ledger_summary_def
      default_budgets_def budget_line_def series_get_def mean_def)
    (simp add: ledger_rows_def entry_def)

lemma detect_sample:
  "detect_anomalies (threshold_labels 300) categorized_analyzer = Inr detected_analyzer"
  by (simp add: detect_anomalies_def categorized_analyzer_def detected_analyzer_def init_def
      preprocess_data_def threshold_labels_def categorized_rows_def recategorize_def
      sample_rows_def detected_rows_def dayofweek_def month_offsets_def)

lemma generate_summary_loaded:
  "data s = Some d \<Longrightarrow>
     fst (generate_summary s) =
       Inr \<lparr>total_expenses = sum_list (map amount d),
            avg_expense = mean (map amount d),
            category_breakdown = groupby_sum d,
            anomaly_count = (case anomalies s of None \<Rightarrow> 0 | Some a \<Rightarrow> length a),
            budget_status = map (budget_line (groupby_sum d)) (budgets s)\<rparr>"
  by (simp add: generate_summary_def Let_def)

lemma budget_line_eq:
  "budget_line (groupby_sum d) p =
     (fst p, \<lparr>budget = snd p,
              spent = sum_list (map amount (filter (\<lambda>r. category r = fst p) d)),
              remaining = snd p - sum_list (map amount (filter (\<lambda>r. category r = fst p) d)),
              status = (if sum_list (map amount (filter (\<lambda>r. category r = fst p) d)) > snd p
                        then ''Over budget'' else ''Within budget'')\<rparr>)"
  by (cases p) (simp add: budget_line_def series_get_groupby_sum Let_def)



text \<open>
  C4. For loaded records and any budget table, the i-th budget line is for the i-th
  budget key with its ceiling and its spend, and its status is \<open>Over budget\<close> exactly
  when the spend is strictly greater than the ceiling; a spend equal to the ceiling is
  \<open>Within budget\<close>.
\<close>

theorem over_budget_iff_spent_exceeds:
  assumes "data s = Some d"
  shows "\<exists>summ. fst (generate_summary s) = Inr summ \<and>
           length (budget_status summ) = length (budgets s) \<and>
           (\<forall>i < length (budgets s).
              fst (budget_status summ ! i) = fst (budgets s ! i) \<and>
              budget (snd (budget_status summ ! i)) = snd (budgets s ! i) \<and>
              spent (snd (budget_status summ ! i)) =
                sum_list (map amount (filter (\<lambda>r. category r = fst (budgets s ! i)) d)) \<and>
              (status (snd (budget_status summ ! i)) = ''Over budget'' \<longleftrightarrow>
                 spent (snd (budget_status summ ! i)) > budget (snd (budget_status summ ! i))) \<and>
              (status (snd (budget_status summ ! i)) = ''Within budget'' \<longleftrightarrow>
                 spent (snd (budget_status summ ! i)) \<le> budget (snd (budget_status summ ! i))))"
proof -
  define summ where "summ =
     \<lparr>total_expenses = sum_list (map amount d),
      avg_expense = mean (map amount d),
      category_breakdown = groupby_sum d,
      anomaly_count = (case anomalies s of None \<Rightarrow> 0 | Some a \<Rightarrow> length a),
      budget_status = map (budget_line (groupby_sum d)) (budgets s)\<rparr>"
  have run: "fst (generate_summary s) = Inr summ"
    using assms by (simp add: generate_summary_loaded summ_def)
  have len: "length (budget_status summ) = length (budgets s)"
    by (simp add: summ_def)
  have line: "budget_status summ ! i = budget_line (groupby_sum d) (budgets s ! i)"
    if "i < length (budgets s)" for i
    using that by (simp add: summ_def)
  have "\<forall>i < length (budgets s).
              fst (budget_status summ ! i) = fst (budgets s ! i) \<and>
              budget (snd (budget_status summ ! i)) = snd (budgets s ! i) \<and>
              spent (snd (budget_status summ ! i)) =
                sum_list (map amount (filter (\<lambda>r. category r = fst (budgets s ! i)) d)) \<and>
              (status (snd (budget_status summ ! i)) = ''Over budget'' \<longleftrightarrow>
                 spent (snd (budget_status summ ! i)) > budget (snd (budget_status summ ! i))) \<and>
              (status (snd (budget_status summ ! i)) = ''Within budget'' \<longleftrightarrow>
                 spent (snd (budget_status summ ! i)) \<le> budget (snd (budget_status summ ! i)))"
    by (simp add: line budget_line_eq not_less)
  with run len show ?thesis by blast
qed

theorem over_budget_iff_spent_exceeds_witness:
  "data ledger_analyzer = Some ledger_rows \<and>
   fst (generate_summary ledger_analyzer) = Inr ledger_summary \<and>
   map (\<lambda>(c, e). (c, budget e, spent e, status e)) (budget_status ledger_summary) =
     [(''Food'', 500, 550, ''Over budget''), (''Travel'', 1000, 1000, ''Within budget''),
      (''Utilities'', 300, 0, ''Within budget''), (''Entertainment'', 200, 0, ''Within budget'')] \<and>
   (status (snd (budget_status ledger_summary ! 1)) = ''Over budget'' \<longleftrightarrow>
      spent (snd (budget_status ledger_summary ! 1)) > budget (snd (budget_status ledger_summary ! 1)))"
proof -
  have d: "data ledger_analyzer = Some ledger_rows"
    by (simp add: ledger_analyzer_def)
  have run: "fst (generate_summary ledger_analyzer) = Inr ledger_summary"
    by (simp add: ledger_summary_eval)
  have n: "1 < length (budgets ledger_analyzer)"
    by (simp add: ledger_analyzer_def init_def default_budgets_def)
  from over_budget_iff_spent_exceeds [OF d] run n
  have "status (snd (budget_status ledger_summary ! 1)) = ''Over budget'' \<longleftrightarrow>
      spent (snd (budget_status ledger_summary ! 1)) > budget (snd (budget_status ledger_summary ! 1))"
    by auto
  moreover have "map (\<lambda>(c, e). (c, budget e, spent e, status e)) (budget_status ledger_summary) =
     [(''Food'', 500, 550, ''Over budget''), (''Travel'', 1000, 1000, ''Within budget''),
      (''Utilities'', 300, 0, ''Within budget''), (''Entertainment'', 200, 0, ''Within budget'')]"
    by (simp add: ledger_summary_def)
  ultimately show ?thesis using d run by simp
qed

lemma empty_summary_eval:
  "generate_summary empty_analyzer = (Inr empty_summary, empty_analyzer)"
  by (simp add: generate_summary_def empty_analyzer_def init_def groupby_sum_def mean_def
      default_budgets_def budget_line_def series_get_def empty_summary_def)

lemma detect_anomalies_result:
  assumes "detect_anomalies fit_predict s = Inr s'"
  shows "\<exists>d2. data s' = Some d2 \<and>
           anomalies s' = Some (filter (\<lambda>r. anomaly r = Some (- 1)) d2) \<and>
           budgets s' = budgets s \<and> category_keywords s' = category_keywords s"
  using assms
  by (auto simp: detect_anomalies_def Let_def split: option.splits prod.splits if_splits)

text \<open>
  C5, as the code has it. In the analyzer that the Detector returns, the summary's
  anomaly count is the number of records whose anomaly label is \<open>-1\<close>, and it still is
  after the records have been categorized again. (The count is the size of the subset
  that the Detector stored, and only the Detector ever assigns that subset.)
\<close>

theorem anomaly_count_counts_flagged:
  assumes "detect_anomalies fit_predict s = Inr s'"
  shows "\<exists>d' summ. data s' = Some d' \<and> fst (generate_summary s') = Inr summ \<and>
           anomaly_count summ = length (filter (\<lambda>r. anomaly r = Some (- 1)) d') \<and>
           (\<forall>s''. auto_categorize str_lower s' = Inr s'' \<longrightarrow>
              (\<exists>d'' summ''. data s'' = Some d'' \<and> fst (generate_summary s'') = Inr summ'' \<and>
                 anomaly_count summ'' = length (filter (\<lambda>r. anomaly r = Some (- 1)) d'')))"
proof -
  from detect_anomalies_result [OF assms] obtain d' where
    d': "data s' = Some d'" and
    a': "anomalies s' = Some (filter (\<lambda>r. anomaly r = Some (- 1)) d')"
    by blast
  define summ where "summ =
     \<lparr>total_expenses = sum_list (map amount d'),
      avg_expense = mean (map amount d'),
      category_breakdown = groupby_sum d',
      anomaly_count = length (filter (\<lambda>r. anomaly r = Some (- 1)) d'),
      budget_status = map (budget_line (groupby_sum d')) (budgets s')\<rparr>"
  have run: "fst (generate_summary s') = Inr summ"
    using d' a' by (simp add: generate_summary_loaded summ_def)
  have count: "anomaly_count summ = length (filter (\<lambda>r. anomaly r = Some (- 1)) d')"
    by (simp add: summ_def)
  have again: "\<exists>d'' summ''. data s'' = Some d'' \<and> fst (generate_summary s'') = Inr summ'' \<and>
                 anomaly_count summ'' = length (filter (\<lambda>r. anomaly r = Some (- 1)) d'')"
    if "auto_categorize str_lower s' = Inr s''" for s''
  proof -
    from auto_categorize_Inr [OF that] d' obtain cs where
      len: "length cs = length d'" and s'': "s'' = s'\<lparr>data := Some (recategorize d' cs)\<rparr>"
      by auto
    define d'' where "d'' = recategorize d' cs"
    have dd: "data s'' = Some d''" and aa: "anomalies s'' = anomalies s'"
      by (simp_all add: s'' d''_def)
    have same: "length (filter (\<lambda>r. anomaly r = Some (- 1)) d'') =
                length (filter (\<lambda>r. anomaly r = Some (- 1)) d')"
      unfolding d''_def using len by (rule recategorize_flagged)
    have "anomaly_count (projr (fst (generate_summary s''))) =
            length (filter (\<lambda>r. anomaly r = Some (- 1)) d'')"
      using dd aa a' same by (simp add: generate_summary_loaded)
    moreover have "fst (generate_summary s'') = Inr (projr (fst (generate_summary s'')))"
      using dd by (simp add: generate_summary_loaded)
    ultimately show ?thesis using dd by blast
  qed
  from d' run count again show ?thesis by blast
qed

theorem anomaly_count_counts_flagged_witness:
  "detect_anomalies (threshold_labels 300) categorized_analyzer = Inr detected_analyzer \<and>
   data detected_analyzer = Some detected_rows \<and>
   length (filter (\<lambda>r. anomaly r = Some (- 1)) detected_rows) = 1 \<and>
   (\<exists>summ. fst (generate_summary detected_analyzer) = Inr summ \<and> anomaly_count summ = 1)"
proof -
  have d: "data detected_analyzer = Some detected_rows"
    by (simp add: detected_analyzer_def)
  have n: "length (filter (\<lambda>r. anomaly r = Some (- 1)) detected_rows) = 1"
    by (simp add: detected_rows_def categorized_rows_def recategorize_def sample_rows_def)
  from anomaly_count_counts_flagged [OF detect_sample] d n
  have "\<exists>summ. fst (generate_summary detected_analyzer) = Inr summ \<and> anomaly_count summ = 1"
    by auto
  with detect_sample d n show ?thesis by simp
qed

lemma reloaded_count:
  "map_sum id anomaly_count (fst (generate_summary reloaded_analyzer)) = Inr 1"
  by (simp add: generate_summary_def reloaded_analyzer_def detected_analyzer_def Let_def)

lemma sample_count:
  "map_sum id anomaly_count (fst (generate_summary sample_analyzer)) = Inr 0"
  by (simp add: generate_summary_def sample_analyzer_def init_def Let_def)

text \<open>
  C5 as the specification states it fails: after the Detector has run, loading a file
  into the same analyzer replaces the records and keeps the stored subset, so the
  summary counts one anomaly while no record carries an anomaly label.
\<close>

theorem reload_keeps_stale_anomaly_count:
  "detect_anomalies (threshold_labels 300) categorized_analyzer = Inr detected_analyzer \<and>
   load_data (\<lambda>path. Inr sample_csv) iso_date ''sample_expenses.csv'' detected_analyzer =
     Inr reloaded_analyzer \<and>
   data reloaded_analyzer = Some sample_rows \<and>
   filter (\<lambda>r. anomaly r = Some (- 1)) sample_rows = [] \<and>
   map_sum id anomaly_count (fst (generate_summary reloaded_analyzer)) = Inr 1"
  by (simp add: detect_sample reload_sample reloaded_count)
    (simp add: reloaded_analyzer_def sample_rows_def)

text \<open>
  C6, as the code has it. Computing the summary leaves the analyzer as it was (records,
  budgets and all other fields), computing it again gives the same result, and the
  result depends on the analyzer only through its records, its budgets and the subset
  of anomalous records that the Detector stored.
\<close>

theorem generate_summary_pure:
  "snd (generate_summary s) = s \<and>
   generate_summary (snd (generate_summary s)) = generate_summary s \<and>
   (data s2 = data s \<and> budgets s2 = budgets s \<and> anomalies s2 = anomalies s \<longrightarrow>
      fst (generate_summary s2) = fst (generate_summary s))"
proof -
  have unchanged: "snd (generate_summary t) = t" for t :: "real analyzer"
    by (simp add: generate_summary_def Let_def split: option.splits)
  have "fst (generate_summary s2) = fst (generate_summary s)"
    if "data s2 = data s" "budgets s2 = budgets s" "anomalies s2 = anomalies s"
    using that by (simp add: generate_summary_def Let_def split: option.splits)
  with unchanged [of s] show ?thesis by simp
qed

theorem generate_summary_pure_witness:
  "data (ledger_analyzer\<lparr>contamination := 1 / 2\<rparr>) = data ledger_analyzer \<and>
   budgets (ledger_analyzer\<lparr>contamination := 1 / 2\<rparr>) = budgets ledger_analyzer \<and>
   anomalies (ledger_analyzer\<lparr>contamination := 1 / 2\<rparr>) = anomalies ledger_analyzer \<and>
   snd (generate_summary ledger_analyzer) = ledger_analyzer \<and>
   generate_summary (snd (generate_summary ledger_analyzer)) = (Inr ledger_summary, ledger_analyzer) \<and>
   fst (generate_summary (ledger_analyzer\<lparr>contamination := 1 / 2\<rparr>)) = Inr ledger_summary"
  using generate_summary_pure [of ledger_analyzer "ledger_analyzer\<lparr>contamination := 1 / 2\<rparr>"]
  by (simp add: ledger_summary_eval)

text \<open>
  C6 as the specification states it fails: the summary is not a function of the
  records and the budgets alone. The example file loaded into a new analyzer, and
  loaded into the analyzer on which the Detector has run, give the same records and
  budgets and two different summaries.
\<close>

theorem summary_depends_on_stored_anomalies:
  "load_data (\<lambda>path. Inr sample_csv) iso_date ''sample_expenses.csv'' (init (1 / 10)) =
     Inr sample_analyzer \<and>
   load_data (\<lambda>path. Inr sample_csv) iso_date ''sample_expenses.csv'' detected_analyzer =
     Inr reloaded_analyzer \<and>
   data reloaded_analyzer = data sample_analyzer \<and>
   budgets reloaded_analyzer = budgets sample_analyzer \<and>
   fst (generate_summary reloaded_analyzer) \<noteq> fst (generate_summary sample_analyzer)"
proof -
  have "data reloaded_analyzer = data sample_analyzer"
    and "budgets reloaded_analyzer = budgets sample_analyzer"
    by (simp_all add: reloaded_analyzer_def detected_analyzer_def sample_analyzer_def)
  moreover have "fst (generate_summary reloaded_analyzer) \<noteq> fst (generate_summary sample_analyzer)"
  proof
    assume "fst (generate_summary reloaded_analyzer) = fst (generate_summary sample_analyzer)"
    then have "map_sum id anomaly_count (fst (generate_summary reloaded_analyzer)) =
               map_sum id anomaly_count (fst (generate_summary sample_analyzer))"
      by simp
    then show False by (simp add: reloaded_count sample_count)
  qed
  ultimately show ?thesis using load_sample reload_sample by simp
qed

text \<open>
  C10, as the code has it. On loaded records with a numeric amount column, while the
  Detector has not run (\<^verbatim>\<open>self.anomalies\<close> is still \<^verbatim>\<open>None\<close>, as \<^verbatim>\<open>__init__\<close> left
  it), computing the summary raises nothing and reports an anomaly count of 0.
\<close>

theorem summary_before_detection:
  assumes "data s = Some d" and "anomalies s = None"
  shows "\<exists>summ. fst (generate_summary s) = Inr summ \<and> anomaly_count summ = 0"
  using assms by (simp add: generate_summary_loaded)

theorem summary_before_detection_witness:
  "load_data (\<lambda>path. Inr sample_csv) iso_date ''sample_expenses.csv'' (init (1 / 10)) =
     Inr sample_analyzer \<and>
   data sample_analyzer = Some sample_rows \<and> sample_rows \<noteq> [] \<and>
   anomalies sample_analyzer = None \<and>
   (\<exists>summ. fst (generate_summary sample_analyzer) = Inr summ \<and> anomaly_count summ = 0)"
proof -
  have d: "data sample_analyzer = Some sample_rows"
    by (simp add: sample_analyzer_def)
  have a: "anomalies sample_analyzer = None"
    by (simp add: sample_analyzer_def init_def)
  have n: "sample_rows \<noteq> []"
    by (simp add: sample_rows_def)
  from summary_before_detection [OF d a] load_sample d a n show ?thesis by simp
qed

text \<open>
  C10 as the specification states it fails: the file whose amount cell is text loads
  into one record, and computing the summary of it raises \<^verbatim>\<open>TypeError\<close>.
\<close>

theorem summary_of_text_amounts_raises:
  "load_data (\<lambda>path. Inr text_amount_csv) iso_date ''expenses.csv'' (init (1 / 10)) =
     Inr text_amount_analyzer \<and>
   data text_amount_analyzer = Some text_amount_rows \<and>
   text_amount_rows \<noteq> [] \<and>
   anomalies text_amount_analyzer = None \<and>
   fst (generate_summary_text text_amount_analyzer) = Inl TypeError"
  by (simp add: load_text_amount)
    (simp add: generate_summary_text_def text_amount_analyzer_def text_amount_rows_def init_def)

section \<open>Properties of the loader\<close>




section \<open>Missing and empty data\<close>

text \<open>
  C8, as the code has it. Before any data is loaded, anomaly detection and
  summarization both raise the no-data error. On loaded data with zero records there
  is no check of its own: the summary is computed (total 0, no average, no category,
  every budget unspent), and detection hands the empty feature matrix to the model,
  failing only if the model refuses it.
\<close>

theorem not_loaded_and_empty_dataset:
  "(data s = None \<longrightarrow>
      detect_anomalies fit_predict s = Inl NotLoaded \<and>
      fst (generate_summary s) = Inl NotLoaded) \<and>
   (data s = Some [] \<longrightarrow>
      (\<exists>summ. fst (generate_summary s) = Inr summ \<and>
         total_expenses summ = 0 \<and> avg_expense summ = None \<and> category_breakdown summ = [] \<and>
         list_all (\<lambda>ce. spent (snd ce) = 0) (budget_status summ)) \<and>
      detect_anomalies fit_predict s =
        (case fit_predict [] of
           None \<Rightarrow> Inl ModelFailure
         | Some labels \<Rightarrow>
             if labels \<noteq> [] then Inl LengthMismatch
             else Inr (s\<lparr>data := Some [], anomalies := Some []\<rparr>)))"
proof (intro conjI impI)
  assume "data s = None"
  then show "detect_anomalies fit_predict s = Inl NotLoaded"
    and "fst (generate_summary s) = Inl NotLoaded"
    by (simp_all add: detect_anomalies_def generate_summary_def)
next
  assume e: "data s = Some []"
  have "list_all (\<lambda>ce. spent (snd ce) = 0) (map (budget_line (groupby_sum [])) (budgets s))"
    by (simp add: list_all_iff budget_line_eq)
  then show "\<exists>summ. fst (generate_summary s) = Inr summ \<and>
         total_expenses summ = 0 \<and> avg_expense summ = None \<and> category_breakdown summ = [] \<and>
         list_all (\<lambda>ce. spent (snd ce) = 0) (budget_status summ)"
    using e by (simp add: generate_summary_loaded mean_def groupby_sum_def)
  show "detect_anomalies fit_predict s =
        (case fit_predict [] of
           None \<Rightarrow> Inl ModelFailure
         | Some labels \<Rightarrow>
             if labels \<noteq> [] then Inl LengthMismatch
             else Inr (s\<lparr>data := Some [], anomalies := Some []\<rparr>))"
    using e by (simp add: detect_anomalies_def preprocess_data_def split: option.splits)
qed

theorem not_loaded_and_empty_dataset_witness:
  "data (init (1 / 10) :: real analyzer) = None \<and>
   detect_anomalies (strict_labels 300) (init (1 / 10)) = Inl NotLoaded \<and>
   fst (generate_summary (init (1 / 10))) = Inl NotLoaded \<and>
   data empty_analyzer = Some [] \<and>
   fst (generate_summary empty_analyzer) = Inr empty_summary \<and>
   detect_anomalies (strict_labels 300) empty_analyzer = Inl ModelFailure \<and>
   detect_anomalies (threshold_labels 300) empty_analyzer =
     Inr (empty_analyzer\<lparr>data := Some [], anomalies := Some []\<rparr>)"
proof -
  have n: "data (init (1 / 10) :: real analyzer) = None"
    by (simp add: init_def)
  have e: "data empty_analyzer = Some []"
    by (simp add: empty_analyzer_def)
  have s: "strict_labels 300 [] = None" and t: "threshold_labels 300 [] = Some []"
    by (simp_all add: strict_labels_def threshold_labels_def)
  show ?thesis
    using not_loaded_and_empty_dataset [of "init (1 / 10)" "strict_labels 300"]
      not_loaded_and_empty_dataset [of empty_analyzer "strict_labels 300"]
      not_loaded_and_empty_dataset [of empty_analyzer "threshold_labels 300"]
      n e s t
    by (simp add: empty_summary_eval)
qed

text \<open>
  C8 as the specification states it fails: a file with a header and no record loads
  into zero records, and summarizing them returns a summary, not an error.
\<close>

theorem summary_of_empty_dataset_succeeds:
  "load_data (\<lambda>path. Inr header_only_csv) iso_date ''empty.csv'' (init (1 / 10)) =
     Inr empty_analyzer \<and>
   data empty_analyzer = Some [] \<and>
   fst (generate_summary empty_analyzer) = Inr empty_summary"
  by (simp add: load_header_only empty_summary_eval) (simp add: empty_analyzer_def)

section \<open>The query dispatcher\<close>

lemma trips_query:
  "ascii_lowercase ''Show Travel expenses for January 2024'' =
     ''show travel expenses for january 2024''"
  "\<not> sublist ''budget'' ''show travel expenses for january 2024''"
  "find (\<lambda>cat. sublist cat ''show travel expenses for january 2024'') categories =
     Some ''travel''"
  "capitalize ''travel'' = ''Travel''"
  "sublist ''january'' ''show travel expenses for january 2024''"
  "sublist ''2024'' ''show travel expenses for january 2024''"
  "date_filter_of 2026 ''show travel expenses for january 2024'' = Some ''2026-01''"
  "strftime_Ym \<lparr>year = 2024, month_of = 1, day = 15\<rparr> = ''2024-01''"
  "strftime_Ym \<lparr>year = 2026, month_of = 1, day = 10\<rparr> = ''2026-01''"
  by code_simp+

text \<open>
  C9. The query names the category Travel and the month January of the year 2024, and
  the current year is 2026. The dispatcher looks for the year \<open>2025\<close> only and
  otherwise takes the current year: it answers with the record of January 2026 and
  leaves out the record of January 2024, the year-month that was requested.
\<close>

theorem other_year_filtered_by_current_year:
  "sublist ''travel'' (ascii_lowercase ''Show Travel expenses for January 2024'') \<and>
   sublist ''january'' (ascii_lowercase ''Show Travel expenses for January 2024'') \<and>
   sublist ''2024'' (ascii_lowercase ''Show Travel expenses for January 2024'') \<and>
   map (\<lambda>r. (category r, strftime_Ym (date_col r))) trips_rows =
     [(''Travel'', ''2024-01''), (''Travel'', ''2026-01'')] \<and>
   handle_query ascii_lowercase 2026 (Some trips_analyzer)
       ''Show Travel expenses for January 2024'' =
     Expenses ''Travel'' [(\<lparr>year = 2026, month_of = 1, day = 10\<rparr>, 30, Some ''Taxi'')]"
proof -
  have q: "sublist ''travel'' ''show travel expenses for january 2024''"
    by code_simp
  have rows: "map (\<lambda>r. (category r, strftime_Ym (date_col r))) trips_rows =
     [(''Travel'', ''2024-01''), (''Travel'', ''2026-01'')]"
    by (simp add: trips_rows_def trips_query del: One_nat_def)
  have "handle_query ascii_lowercase 2026 (Some trips_analyzer)
       ''Show Travel expenses for January 2024'' =
     Expenses ''Travel'' [(\<lparr>year = 2026, month_of = 1, day = 10\<rparr>, 30, Some ''Taxi'')]"
    by (simp add: handle_query_def trips_analyzer_def trips_rows_def trips_query Let_def
        del: One_nat_def capitalize.simps)
  with q rows show ?thesis by (simp add: trips_query)
qed

end
